theory Spec2Isabelle
  imports Complex_Main "HOL-Library.AList" "HOL-Library.Char_ord" "HOL-Library.List_Lexorder"
    "HOL-Library.Multiset"
begin

section \<open>Data model (src/types/index.ts)\<close>

text \<open>
  Strings are byte lists holding the UTF-8 encoding of the source's strings; the
  substring and equality tests of the source give the same answers on the encoding.
  A number that the source computes with (a success rate, a reading, a score) is the real
  that the IEEE double denotes, and every arithmetic step rounds as the doubles do
  (section on doubles below). Counters are naturals, and clock readings are integers
  (milliseconds since the epoch, of magnitude below 2^53, on which subtraction and
  the addition of 1 are exact): the ISO string that the source keeps in \<open>lastUsed\<close> is
  read back to exactly that integer.
\<close>

datatype IntentType = BATH_PREPARE | SLEEP | GO_OUT | GO_HOME | ADJUST_TEMP | GET_STATUS

fun IntentType_value :: "IntentType \<Rightarrow> string" where
  "IntentType_value BATH_PREPARE = ''bath_prepare''"
| "IntentType_value SLEEP = ''sleep''"
| "IntentType_value GO_OUT = ''go_out''"
| "IntentType_value GO_HOME = ''go_home''"
| "IntentType_value ADJUST_TEMP = ''adjust_temperature''"
| "IntentType_value GET_STATUS = ''get_status''"

datatype ExecutionStatus = PENDING | SUCCESS | FAILED | PARTIAL

fun ExecutionStatus_value :: "ExecutionStatus \<Rightarrow> string" where
  "ExecutionStatus_value PENDING = ''pending''"
| "ExecutionStatus_value SUCCESS = ''success''"
| "ExecutionStatus_value FAILED = ''failed''"
| "ExecutionStatus_value PARTIAL = ''partial''"

datatype CacheStrategy = NONE | SIMPLE | CONTEXT_AWARE

datatype TimeOfDay = morning | afternoon | evening | night

fun TimeOfDay_value :: "TimeOfDay \<Rightarrow> string" where
  "TimeOfDay_value morning = ''morning''"
| "TimeOfDay_value afternoon = ''afternoon''"
| "TimeOfDay_value evening = ''evening''"
| "TimeOfDay_value night = ''night''"

record Intent =
  intent :: IntentType
  confidence :: real
  timeHint :: "string option"
  rawInput :: string

text \<open>
  \<open>DeviceState.attributes\<close> and \<open>lastChanged\<close> are read by none of the functions
  below and are left out.
\<close>

record DeviceState =
  entityId :: string
  entityName :: string
  state :: string

record ContextState =
  timestamp :: string
  devices :: "DeviceState list"
  presence :: "bool option"
  timeOfDay :: TimeOfDay
  temperature :: "real option"
  humidity :: "real option"

record ActionStep =
  service :: string
  step_entityId :: string
  targetName :: string
  description :: string

record Plan =
  planId :: string
  plan_intent :: IntentType
  steps :: "ActionStep list"
  estimatedTime :: "real option"
  plan_confidence :: real
  cacheable :: bool

record CacheEntry =
  cacheKey :: string
  entry_intent :: IntentType
  plan :: Plan
  contextHash :: string
  lastUsed :: int
  usageCount :: nat
  successRate :: real

section \<open>String helpers\<close>

fun startsWith :: "string \<Rightarrow> string \<Rightarrow> bool" where
  "startsWith s [] = True"
| "startsWith [] (c # t) = False"
| "startsWith (a # s) (c # t) = (a = c \<and> startsWith s t)"

text \<open>\<open>String.prototype.includes\<close>: \<open>str_includes s t\<close> is \<open>s.includes(t)\<close>.\<close>

fun str_includes :: "string \<Rightarrow> string \<Rightarrow> bool" where
  "str_includes [] t = (t = [])"
| "str_includes (a # s) t = (startsWith (a # s) t \<or> str_includes s t)"

section \<open>IEEE doubles\<close>

text \<open>
  \<open>double x\<close> is the double nearest to the real \<open>x\<close>, a tie going to the even
  significand: 53 bits of significand, exponents from -1022 to 1023, subnormals below.
  \<open>exponent a\<close> is the exponent of the binade of \<open>a > 0\<close>, kept within those bounds
  (the two searches stop after 1023 and 1021 steps). A literal such as \<open>0.1\<close> is
  \<open>double (1 / 10)\<close>, and an operation of the source is the exact operation followed by
  \<open>double\<close>. A result whose rounded magnitude reaches 2^1024 is an infinity; that is
  decided where it can occur (\<open>overflows\<close>, \<open>to_Score\<close>).
\<close>

fun exponent_up :: "nat \<Rightarrow> real \<Rightarrow> int" where
  "exponent_up n a = (if n = 0 \<or> a < 2 then 0 else exponent_up (n - 1) (a / 2) + 1)"

fun exponent_down :: "nat \<Rightarrow> real \<Rightarrow> int" where
  "exponent_down n a = (if n = 0 \<or> 1 \<le> 2 * a then - 1 else exponent_down (n - 1) (2 * a) - 1)"

declare exponent_up.simps [simp del]

declare exponent_down.simps [simp del]

definition exponent :: "real \<Rightarrow> int" where
  "exponent a = (if 1 \<le> a then exponent_up 1023 a else exponent_down 1021 a)"

definition round_half_even :: "real \<Rightarrow> int" where
  "round_half_even m =
     (let f = \<lfloor>m\<rfloor>; d = m - of_int f
      in if d < 1 / 2 then f
         else if 1 / 2 < d then f + 1
         else if even f then f else f + 1)"

definition double :: "real \<Rightarrow> real" where
  "double x =
     (if x = 0 then 0
      else let q = 2 powi (exponent \<bar>x\<bar> - 52)
           in sgn x * (of_int (round_half_even (\<bar>x\<bar> / q)) * q))"

text \<open>
  The nearest double does not exist when the rounded magnitude reaches 2^1024: that
  happens in the top binade only, when the significand rounds up to 2^53.
\<close>

definition overflows :: "real \<Rightarrow> bool" where
  "overflows x =
     (if x = 0 then False
      else if exponent \<bar>x\<bar> = 1023 then 2 ^ 53 \<le> round_half_even (\<bar>x\<bar> / 2 powi 971)
      else False)"

text \<open>\<open>n++\<close> on a counter: 2^53 + 1 is a tie and rounds back to 2^53.\<close>

definition js_increment :: "nat \<Rightarrow> nat" where
  "js_increment n = (if int n < 2 ^ 53 then n + 1 else n)"

section \<open>Plan refinement (src/agents/planner.agent.ts)\<close>

text \<open>The three annotation strings of \<open>validateAndRefinePlan\<close>, as UTF-8 bytes.\<close>

definition marker_already_on :: string where
  "marker_already_on = [CHR ''['', CHR 0xE5, CHR 0xB7, CHR 0xB2, CHR 0xE5, CHR 0xBC, CHR 0x80,
     CHR 0xE5, CHR 0x90, CHR 0xAF, CHR '']'', CHR 0x20]"

definition marker_already_off :: string where
  "marker_already_off = [CHR ''['', CHR 0xE5, CHR 0xB7, CHR 0xB2, CHR 0xE5, CHR 0x85, CHR 0xB3,
     CHR 0xE9, CHR 0x97, CHR 0xAD, CHR '']'', CHR 0x20]"

definition marker_skipped :: string where
  "marker_skipped = [CHR 0x20, CHR ''('', CHR 0xE8, CHR 0xB7, CHR 0xB3, CHR 0xE8, CHR 0xBF,
     CHR 0x87, CHR '')'']"

definition marker_warning :: string where
  "marker_warning = [CHR ''['', CHR 0xE8, CHR 0xAD, CHR 0xA6, CHR 0xE5, CHR 0x91, CHR 0x8A,
     CHR '':'', CHR 0xE8, CHR 0xAE, CHR 0xBE, CHR 0xE5, CHR 0xA4, CHR 0x87, CHR 0xE4, CHR 0xB8,
     CHR 0x8D, CHR 0xE5, CHR 0xAD, CHR 0x98, CHR 0xE5, CHR 0x9C, CHR 0xA8, CHR '']'', CHR 0x20]"

text \<open>
  The body of the loop of \<open>validateAndRefinePlan\<close>: the step that one iteration pushes
  onto \<open>refinedSteps\<close>.
\<close>

definition refineStep :: "ContextState \<Rightarrow> ActionStep \<Rightarrow> ActionStep" where
  "refineStep context step =
     (case find (\<lambda>d. entityId d = step_entityId step) (devices context) of
        Some device \<Rightarrow>
          if str_includes (service step) ''turn_on'' \<and> state device = ''on''
          then step\<lparr>description := marker_already_on @ description step @ marker_skipped\<rparr>
          else if str_includes (service step) ''turn_off'' \<and> state device = ''off''
          then step\<lparr>description := marker_already_off @ description step @ marker_skipped\<rparr>
          else step
      | None \<Rightarrow> step\<lparr>description := marker_warning @ description step\<rparr>)"

fun refinedSteps :: "ContextState \<Rightarrow> ActionStep list \<Rightarrow> ActionStep list" where
  "refinedSteps context [] = []"
| "refinedSteps context (step # rest) = refineStep context step # refinedSteps context rest"

definition validateAndRefinePlan :: "Plan \<Rightarrow> ContextState \<Rightarrow> Plan" where
  "validateAndRefinePlan p context = p\<lparr>steps := refinedSteps context (steps p)\<rparr>"

text \<open>
  The condition under which an iteration of the loop rewrites the description: the
  target device is absent, or it is already in the state the step asks for.
\<close>

definition annotated :: "ContextState \<Rightarrow> ActionStep \<Rightarrow> bool" where
  "annotated context step =
     (case find (\<lambda>d. entityId d = step_entityId step) (devices context) of
        Some device \<Rightarrow>
          (str_includes (service step) ''turn_on'' \<and> state device = ''on'') \<or>
          (str_includes (service step) ''turn_off'' \<and> state device = ''off'')
      | None \<Rightarrow> True)"

definition clearDescription :: "ActionStep \<Rightarrow> ActionStep" where
  "clearDescription step = step\<lparr>description := []\<rparr>"


section \<open>\<open>JSON.parse\<close>\<close>

text \<open>
  \<open>findFuzzyMatch\<close> calls the platform's \<open>JSON.parse\<close> and drops the value, so
  the one thing that matters is whether the call returns or throws a SyntaxError.
  \<open>JSON_parse text\<close> holds when \<open>text\<close> is a JSON text (ECMA-404: a value between
  optional white space). The recogniser returns the input left after the value it read.
  Arrays and objects nest, so \<open>json_value\<close> runs on fuel; each call consumes a
  character before it recurses, and \<open>JSON_parse\<close> supplies more fuel than the text
  has characters to consume.
\<close>

definition is_ws :: "char \<Rightarrow> bool" where
  "is_ws c = (c = CHR 0x20 \<or> c = CHR 0x09 \<or> c = CHR 0x0A \<or> c = CHR 0x0D)"

definition is_digit :: "char \<Rightarrow> bool" where
  "is_digit c = (c \<in> set ''0123456789'')"

definition is_hex :: "char \<Rightarrow> bool" where
  "is_hex c = (is_digit c \<or> c \<in> set ''abcdefABCDEF'')"

definition skip_ws :: "string \<Rightarrow> string" where
  "skip_ws s = dropWhile is_ws s"

definition json_digits :: "string \<Rightarrow> string option" where
  "json_digits s =
     (case s of [] \<Rightarrow> None
      | c # r \<Rightarrow> if is_digit c then Some (dropWhile is_digit r) else None)"

definition json_int :: "string \<Rightarrow> string option" where
  "json_int s =
     (case s of [] \<Rightarrow> None
      | c # r \<Rightarrow> if c = CHR ''0'' then Some r
                 else if is_digit c then Some (dropWhile is_digit r) else None)"

definition json_frac :: "string \<Rightarrow> string option" where
  "json_frac s =
     (case s of [] \<Rightarrow> Some []
      | c # r \<Rightarrow> if c = CHR ''.'' then json_digits r else Some s)"

definition json_exp :: "string \<Rightarrow> string option" where
  "json_exp s =
     (case s of [] \<Rightarrow> Some []
      | c # r \<Rightarrow>
          if c = CHR ''e'' \<or> c = CHR ''E'' then
            (case r of [] \<Rightarrow> None
             | d # r' \<Rightarrow> if d = CHR ''+'' \<or> d = CHR ''-'' then json_digits r' else json_digits r)
          else Some s)"

definition json_number :: "string \<Rightarrow> string option" where
  "json_number s =
     (case json_int (case s of [] \<Rightarrow> [] | c # r \<Rightarrow> if c = CHR ''-'' then r else s) of
        None \<Rightarrow> None
      | Some r \<Rightarrow> (case json_frac r of None \<Rightarrow> None | Some r' \<Rightarrow> json_exp r'))"

text \<open>The characters of a string literal, after its opening quote.\<close>

fun json_chars :: "string \<Rightarrow> string option" where
  "json_chars [] = None"
| "json_chars [c] = (if c = CHR 0x22 then Some [] else None)"
| "json_chars (c # e # r) =
     (if c = CHR 0x22 then Some (e # r)
      else if c = CHR 0x5C then
        (if e \<in> set [CHR 0x22, CHR 0x5C, CHR ''/'', CHR ''b'', CHR ''f'', CHR ''n'', CHR ''r'', CHR ''t'']
         then json_chars r
         else if e = CHR ''u'' \<and> 4 \<le> length r \<and> list_all is_hex (take 4 r)
         then json_chars (drop 4 r)
         else None)
      else if c < CHR 0x20 then None
      else json_chars (e # r))"

fun json_value :: "nat \<Rightarrow> string \<Rightarrow> string option"
  and json_elements :: "nat \<Rightarrow> string \<Rightarrow> string option"
  and json_members :: "nat \<Rightarrow> string \<Rightarrow> string option" where
  "json_value 0 s = None"
| "json_value (Suc n) s =
     (case s of [] \<Rightarrow> None
      | c # r \<Rightarrow>
          if c = CHR ''{'' then
            (case skip_ws r of [] \<Rightarrow> None
             | d # r' \<Rightarrow> if d = CHR ''}'' then Some r' else json_members n (d # r'))
          else if c = CHR ''['' then
            (case skip_ws r of [] \<Rightarrow> None
             | d # r' \<Rightarrow> if d = CHR '']'' then Some r' else json_elements n (d # r'))
          else if c = CHR 0x22 then json_chars r
          else if startsWith s ''true'' then Some (drop 4 s)
          else if startsWith s ''false'' then Some (drop 5 s)
          else if startsWith s ''null'' then Some (drop 4 s)
          else json_number s)"
| "json_elements 0 s = None"
| "json_elements (Suc n) s =
     (case json_value n (skip_ws s) of None \<Rightarrow> None
      | Some r \<Rightarrow>
          (case skip_ws r of [] \<Rightarrow> None
           | d # r' \<Rightarrow> if d = CHR '','' then json_elements n r'
                      else if d = CHR '']'' then Some r' else None))"
| "json_members 0 s = None"
| "json_members (Suc n) s =
     (case skip_ws s of [] \<Rightarrow> None
      | q # r \<Rightarrow>
          if q \<noteq> CHR 0x22 then None
          else
            (case json_chars r of None \<Rightarrow> None
             | Some r1 \<Rightarrow>
                 (case skip_ws r1 of [] \<Rightarrow> None
                  | col # r2 \<Rightarrow>
                      if col \<noteq> CHR '':'' then None
                      else
                        (case json_value n (skip_ws r2) of None \<Rightarrow> None
                         | Some r3 \<Rightarrow>
                             (case skip_ws r3 of [] \<Rightarrow> None
                              | d # r4 \<Rightarrow> if d = CHR '','' then json_members n r4
                                         else if d = CHR ''}'' then Some r4 else None)))))"

definition JSON_parse :: "string \<Rightarrow> bool" where
  "JSON_parse text =
     (case json_value (2 * length text + 2) (skip_ws text) of
        None \<Rightarrow> False
      | Some r \<Rightarrow> skip_ws r = [])"

section \<open>Plan cache (src/services/cache.ts)\<close>

record CacheConfig =
  strategy :: CacheStrategy
  ttl :: int
  maxSize :: int

text \<open>
  The \<open>Map<string, CacheEntry>\<close> of the source iterates in insertion order, and both
  \<open>findFuzzyMatch\<close> and \<open>evictLeastUseful\<close> depend on that order. It is an
  association list: \<open>map_of\<close> is \<open>Map.get\<close>, \<open>AList.update\<close> is \<open>Map.set\<close> (an
  existing key keeps its place, a new key goes to the end) and \<open>AList.delete\<close> is
  \<open>Map.delete\<close>.
\<close>

type_synonym EntryMap = "(string \<times> CacheEntry) list"

text \<open>
  The object literal that \<open>computeContextHash\<close> serialises.
\<close>

record NormalizedContext =
  norm_timeOfDay :: TimeOfDay
  norm_presence :: "bool option"
  norm_temperature :: real
  norm_humidity :: real
  norm_devices :: "(string \<times> string) list"

text \<open>
  Three functions of the platform are parameters of the model. \<open>localeCompare a b\<close> is
  the number that \<open>a.localeCompare(b)\<close> returns, of which the sort reads the sign.
  \<open>md5_hex\<close> is the composition of \<open>JSON.stringify\<close> and the MD5 digest: it maps the
  object to the string that
  \<open>crypto.createHash("md5").update(JSON.stringify(obj)).digest("hex")\<close> returns.
\<close>

record Platform =
  localeCompare :: "string \<Rightarrow> string \<Rightarrow> int"
  md5_hex :: "NormalizedContext \<Rightarrow> string"

text \<open>\<open>Math.round\<close> rounds to the nearest integer, a tie towards plus infinity.\<close>

definition Math_round :: "real \<Rightarrow> int" where
  "Math_round x = \<lfloor>x + 1 / 2\<rfloor>"

text \<open>\<open>Math.round((v || 0) * 10) / 10\<close>, an absent reading being \<open>undefined\<close>.\<close>

definition round1 :: "real option \<Rightarrow> real" where
  "round1 v =
     double (real_of_int (Math_round (double ((case v of None \<Rightarrow> 0 | Some x \<Rightarrow> x) * 10))) / 10)"

text \<open>
  \<open>Array.prototype.sort\<close> with a comparison function is a stable sort. For a
  consistent comparison function every stable sort returns the same array; it is computed
  here by insertion, an element going before the first one it does not compare greater
  than.
\<close>

fun insert_sorted :: "('a \<Rightarrow> 'a \<Rightarrow> int) \<Rightarrow> 'a \<Rightarrow> 'a list \<Rightarrow> 'a list" where
  "insert_sorted comparefn x [] = [x]"
| "insert_sorted comparefn x (y # ys) =
     (if comparefn x y \<le> 0 then x # y # ys else y # insert_sorted comparefn x ys)"

definition Array_sort :: "('a \<Rightarrow> 'a \<Rightarrow> int) \<Rightarrow> 'a list \<Rightarrow> 'a list" where
  "Array_sort comparefn xs = foldr (insert_sorted comparefn) xs []"

text \<open>The devices are reduced to (id, state) pairs and sorted by id with \<open>localeCompare\<close>.\<close>

definition normalized :: "Platform \<Rightarrow> ContextState \<Rightarrow> NormalizedContext" where
  "normalized platform context =
     \<lparr>norm_timeOfDay = timeOfDay context,
      norm_presence = presence context,
      norm_temperature = round1 (temperature context),
      norm_humidity = round1 (humidity context),
      norm_devices =
        Array_sort (\<lambda>a b. localeCompare platform (fst a) (fst b))
          (map (\<lambda>d. (entityId d, state d)) (devices context))\<rparr>"

definition computeContextHash :: "Platform \<Rightarrow> ContextState \<Rightarrow> string" where
  "computeContextHash platform context = md5_hex platform (normalized platform context)"

definition generateCacheKey :: "Platform \<Rightarrow> CacheConfig \<Rightarrow> Intent \<Rightarrow> ContextState option \<Rightarrow> string" where
  "generateCacheKey platform config i context =
     (case context of
        None \<Rightarrow> ''simple:'' @ IntentType_value (intent i)
      | Some c \<Rightarrow>
          if strategy config = SIMPLE then ''simple:'' @ IntentType_value (intent i)
          else if strategy config = CONTEXT_AWARE
          then ''context:'' @ IntentType_value (intent i) @ '':'' @ computeContextHash platform c
          else ''default:'' @ IntentType_value (intent i))"

text \<open>\<open>isExpired\<close>, with the clock reading \<open>Date.now()\<close> as the argument \<open>now\<close>.\<close>

definition isExpired :: "CacheConfig \<Rightarrow> int \<Rightarrow> CacheEntry \<Rightarrow> bool" where
  "isExpired config now entry = (now - lastUsed entry > ttl config * 1000)"

datatype error = SyntaxError

text \<open>
  The loop of \<open>findFuzzyMatch\<close>. The source returns the entry object itself; the model
  returns it with the key under which the map holds it, so that the caller's writes to the
  object can be made to the map.
\<close>

fun findFuzzyMatch_loop :: "IntentType \<Rightarrow> string \<Rightarrow> EntryMap \<Rightarrow> error + (string \<times> CacheEntry) option" where
  "findFuzzyMatch_loop i targetTimeOfDay [] = Inr None"
| "findFuzzyMatch_loop i targetTimeOfDay ((key, entry) # rest) =
     (if entry_intent entry \<noteq> i then findFuzzyMatch_loop i targetTimeOfDay rest
      else if \<not> JSON_parse (contextHash entry) then Inl SyntaxError
      else if str_includes key targetTimeOfDay \<or> successRate entry > double (8 / 10)
      then Inr (Some (key, entry))
      else findFuzzyMatch_loop i targetTimeOfDay rest)"

definition findFuzzyMatch :: "EntryMap \<Rightarrow> Intent \<Rightarrow> ContextState \<Rightarrow> error + (string \<times> CacheEntry) option" where
  "findFuzzyMatch cache i context =
     findFuzzyMatch_loop (intent i) (TimeOfDay_value (timeOfDay context)) cache"

text \<open>
  The result of \<open>query\<close>: a miss with one of the three reason strings of the source
  (caching disabled, no matching entry, entry expired), or a hit with the entry.
\<close>

datatype MissReason = CacheDisabled | NoMatch | Expired

datatype QueryResult = Miss MissReason | Hit CacheEntry

text \<open>
  \<open>query\<close> returns its result and the map it leaves behind, or the exception that
  escapes it. One clock reading \<open>now\<close> serves the whole call.
\<close>

definition query :: "Platform \<Rightarrow> CacheConfig \<Rightarrow> int \<Rightarrow> EntryMap \<Rightarrow> Intent \<Rightarrow> ContextState option
    \<Rightarrow> error + (QueryResult \<times> EntryMap)" where
  "query platform config now cache i context =
     (if strategy config = NONE then Inr (Miss CacheDisabled, cache)
      else
        let key = generateCacheKey platform config i context in
        (case (case map_of cache key of
                 Some e \<Rightarrow> Inr (Some (key, e))
               | None \<Rightarrow>
                   (case context of
                      Some c \<Rightarrow>
                        if strategy config = CONTEXT_AWARE then findFuzzyMatch cache i c
                        else Inr None
                    | None \<Rightarrow> Inr None)) of
           Inl err \<Rightarrow> Inl err
         | Inr None \<Rightarrow> Inr (Miss NoMatch, cache)
         | Inr (Some (k, entry)) \<Rightarrow>
             if isExpired config now entry then Inr (Miss Expired, AList.delete key cache)
             else
               let entry' = entry\<lparr>usageCount := js_increment (usageCount entry), lastUsed := now\<rparr>
               in Inr (Hit entry', AList.update k entry' cache)))"

text \<open>
  A score of \<open>evictLeastUseful\<close> is a JavaScript number that can be an infinity or NaN:
  the product can overflow, and the division gives an infinity or NaN when the
  denominator is zero. \<open>Score_less\<close> is the operator \<open><\<close> on such numbers. The
  denominator is an integer, exact as a double.
\<close>

datatype Score = Finite real | PosInfinity | NegInfinity | NotANumber

fun Score_less :: "Score \<Rightarrow> Score \<Rightarrow> bool" where
  "Score_less (Finite a) (Finite b) = (a < b)"
| "Score_less (Finite a) PosInfinity = True"
| "Score_less NegInfinity (Finite b) = True"
| "Score_less NegInfinity PosInfinity = True"
| "Score_less a b = False"

text \<open>The double, or the infinity, to which an exact result rounds.\<close>

definition to_Score :: "real \<Rightarrow> Score" where
  "to_Score x =
     (if overflows x then (if 0 < x then PosInfinity else NegInfinity)
      else Finite (double x))"

definition js_divide :: "Score \<Rightarrow> real \<Rightarrow> Score" where
  "js_divide a b =
     (case a of
        Finite x \<Rightarrow>
          if b \<noteq> 0 then to_Score (x / b)
          else if x > 0 then PosInfinity
          else if x < 0 then NegInfinity
          else NotANumber
      | PosInfinity \<Rightarrow> if b < 0 then NegInfinity else PosInfinity
      | NegInfinity \<Rightarrow> if b < 0 then PosInfinity else NegInfinity
      | NotANumber \<Rightarrow> NotANumber)"

definition score :: "int \<Rightarrow> CacheEntry \<Rightarrow> Score" where
  "score now entry =
     js_divide (to_Score (real (usageCount entry) * successRate entry))
       (1 + real_of_int (now - lastUsed entry))"

fun evict_loop :: "int \<Rightarrow> EntryMap \<Rightarrow> string option \<Rightarrow> Score \<Rightarrow> string option" where
  "evict_loop now [] leastUseful minScore = leastUseful"
| "evict_loop now ((key, entry) # rest) leastUseful minScore =
     (if Score_less (score now entry) minScore
      then evict_loop now rest (Some key) (score now entry)
      else evict_loop now rest leastUseful minScore)"

text \<open>The last test of \<open>evictLeastUseful\<close> is on the truthiness of the key: an empty
  string is not deleted.\<close>

definition evictLeastUseful :: "int \<Rightarrow> EntryMap \<Rightarrow> EntryMap" where
  "evictLeastUseful now cache =
     (if length cache = 0 then cache
      else
        (case evict_loop now cache None PosInfinity of
           None \<Rightarrow> cache
         | Some leastUseful \<Rightarrow> if leastUseful \<noteq> [] then AList.delete leastUseful cache else cache))"

definition store :: "Platform \<Rightarrow> CacheConfig \<Rightarrow> int \<Rightarrow> EntryMap \<Rightarrow> Intent \<Rightarrow> Plan \<Rightarrow> ContextState option
    \<Rightarrow> EntryMap" where
  "store platform config now cache i p context =
     (if strategy config = NONE \<or> \<not> cacheable p then cache
      else
        let cache' = (if int (length cache) \<ge> maxSize config then evictLeastUseful now cache else cache);
            key = generateCacheKey platform config i context;
            hash = (case context of Some c \<Rightarrow> computeContextHash platform c | None \<Rightarrow> ''simple'');
            entry = \<lparr>cacheKey = key, entry_intent = intent i, plan = p, contextHash = hash,
                     lastUsed = now, usageCount = 1, successRate = 1\<rparr>
        in AList.update key entry cache')"

text \<open>The rate that \<open>updateSuccessRate\<close> computes from the current one.\<close>

definition newRate :: "real \<Rightarrow> bool \<Rightarrow> real" where
  "newRate currentRate success =
     (if success then min 1 (double (currentRate + double (1 / 10)))
      else max 0 (double (currentRate - double (2 / 10))))"

definition updateSuccessRate :: "EntryMap \<Rightarrow> string \<Rightarrow> bool \<Rightarrow> EntryMap" where
  "updateSuccessRate cache key success =
     (case map_of cache key of
        None \<Rightarrow> cache
      | Some entry \<Rightarrow>
          if newRate (successRate entry) success < double (3 / 10) then AList.delete key cache
          else AList.update key (entry\<lparr>successRate := newRate (successRate entry) success\<rparr>) cache)"

definition clear :: "EntryMap \<Rightarrow> EntryMap" where
  "clear cache = []"

text \<open>\<open>delete\<close> of the service: the map left behind and the boolean that \<open>Map.delete\<close> returns.\<close>

definition delete_key :: "EntryMap \<Rightarrow> string \<Rightarrow> bool \<times> EntryMap" where
  "delete_key cache key = (map_of cache key \<noteq> None, AList.delete key cache)"

section \<open>Planner and orchestrator (planner.agent.ts, \<open>Orchestrator\<close>)\<close>

definition validatePlan :: "Plan \<Rightarrow> ContextState \<Rightarrow> bool" where
  "validatePlan p context =
     list_all (\<lambda>id. id \<in> set (map entityId (devices context))) (map step_entityId (steps p))"

text \<open>
  \<open>PlannerAgent.execute\<close>, with the cache present as the orchestrator builds it. The
  plan that \<open>generateNewPlan\<close> obtains from the language model or from its fallback
  table is the parameter \<open>generated\<close>; \<open>findSimilarPlans\<close> only reads the cache.
  The result is the plan, the \<open>cacheHit\<close> flag and the cache left behind.
\<close>

definition PlannerAgent_execute :: "Platform \<Rightarrow> CacheConfig \<Rightarrow> int \<Rightarrow> EntryMap \<Rightarrow> Intent \<Rightarrow> ContextState
    \<Rightarrow> Plan \<Rightarrow> error + ((Plan \<times> bool) \<times> EntryMap)" where
  "PlannerAgent_execute platform config now cache i context generated =
     (case query platform config now cache i (Some context) of
        Inl err \<Rightarrow> Inl err
      | Inr (cached, cache1) \<Rightarrow>
          (case (case cached of
                   Hit entry \<Rightarrow> if validatePlan (plan entry) context then Some (plan entry) else None
                 | Miss reason \<Rightarrow> None) of
             Some p \<Rightarrow> Inr ((p, True), cache1)
           | None \<Rightarrow>
               let validatedPlan = validateAndRefinePlan generated context;
                   cache2 = (if cacheable validatedPlan
                             then store platform config now cache1 i validatedPlan (Some context)
                             else cache1)
               in Inr ((validatedPlan, False), cache2)))"

text \<open>
  \<open>Orchestrator.processUserIntent\<close> from its third step on: the intent and the snapshot
  come from the two agents before it, and \<open>status\<close> is the status of the result that
  \<open>executePlan\<close> returns from the device controller. The counters of \<open>stats\<close> are
  left out.
\<close>

definition processUserIntent :: "Platform \<Rightarrow> CacheConfig \<Rightarrow> int \<Rightarrow> EntryMap \<Rightarrow> Intent \<Rightarrow> ContextState
    \<Rightarrow> Plan \<Rightarrow> ExecutionStatus \<Rightarrow> error + ((Plan \<times> ExecutionStatus \<times> bool) \<times> EntryMap)" where
  "processUserIntent platform config now cache i context generated status =
     (case PlannerAgent_execute platform config now cache i context generated of
        Inl err \<Rightarrow> Inl err
      | Inr ((p, cacheHit), cache1) \<Rightarrow>
          let cache2 = (if cacheHit \<and> ExecutionStatus_value status \<noteq> []
                        then updateSuccessRate cache1 (planId p) (status = SUCCESS)
                        else cache1)
          in Inr ((p, status, cacheHit), cache2))"

section \<open>Sequences of cache operations\<close>

text \<open>
  The public operations of \<open>CacheService\<close>, each paired with the clock reading at which
  it runs. An exception leaves the map as it was: \<open>query\<close> throws before it writes.
\<close>

datatype Operation =
    Query Intent "ContextState option"
  | Store Intent Plan "ContextState option"
  | UpdateSuccessRate string bool
  | Delete string
  | Clear

fun perform :: "Platform \<Rightarrow> CacheConfig \<Rightarrow> EntryMap \<Rightarrow> int \<times> Operation \<Rightarrow> EntryMap" where
  "perform platform config cache (now, Query i context) =
     (case query platform config now cache i context of
        Inl err \<Rightarrow> cache
      | Inr (result, cache') \<Rightarrow> cache')"
| "perform platform config cache (now, Store i p context) = store platform config now cache i p context"
| "perform platform config cache (now, UpdateSuccessRate key success) = updateSuccessRate cache key success"
| "perform platform config cache (now, Delete key) = snd (delete_key cache key)"
| "perform platform config cache (now, Clear) = clear cache"

definition run :: "Platform \<Rightarrow> CacheConfig \<Rightarrow> (int \<times> Operation) list \<Rightarrow> EntryMap" where
  "run platform config ops = foldl (perform platform config) [] ops"

text \<open>The invariant of the data model, on the entries of a map.\<close>

definition entry_ok :: "CacheEntry \<Rightarrow> bool" where
  "entry_ok entry = (0 \<le> successRate entry \<and> successRate entry \<le> 1 \<and> cacheable (plan entry))"

definition cache_invariant :: "CacheConfig \<Rightarrow> EntryMap \<Rightarrow> bool" where
  "cache_invariant config cache =
     (list_all (\<lambda>(key, entry). entry_ok entry) cache \<and>
      distinct (map fst cache) \<and>
      int (length cache) \<le> maxSize config)"

text \<open>What the proof of the invariant carries along: keys are not empty, no entry is
  stamped later than the clock, and no counter exceeds 2^53.\<close>

definition entry_fresh :: "int \<Rightarrow> string \<times> CacheEntry \<Rightarrow> bool" where
  "entry_fresh now ke =
     (fst ke \<noteq> [] \<and> lastUsed (snd ke) \<le> now \<and> int (usageCount (snd ke)) \<le> 2 ^ 53)"

definition cache_inv :: "CacheConfig \<Rightarrow> int \<Rightarrow> EntryMap \<Rightarrow> bool" where
  "cache_inv config now cache = (cache_invariant config cache \<and> list_all (entry_fresh now) cache)"

text \<open>Observations of a map: its keys with their success rates, and the outcome of an
  operation without the plans.\<close>

definition rates :: "EntryMap \<Rightarrow> (string \<times> real) list" where
  "rates cache = map (\<lambda>(key, entry). (key, successRate entry)) cache"

definition observe :: "error + ('a \<times> EntryMap) \<Rightarrow> error + ('a \<times> (string \<times> real) list)" where
  "observe r = map_sum id (\<lambda>(x, cache). (x, rates cache)) r"

definition outcome :: "error + (QueryResult \<times> EntryMap) \<Rightarrow> error + (string + MissReason)" where
  "outcome r =
     map_sum id (\<lambda>(result, cache). case result of Hit entry \<Rightarrow> Inl (cacheKey entry) | Miss reason \<Rightarrow> Inr reason) r"

section \<open>Relations that the claims speak of\<close>





definition is_miss :: "error + (QueryResult \<times> EntryMap) \<Rightarrow> bool" where
  "is_miss r = (case r of Inr (Miss reason, cache) \<Rightarrow> True | _ \<Rightarrow> False)"

section \<open>Sample data\<close>

text \<open>The configuration that \<open>Orchestrator.initialize\<close> builds when the environment
  sets nothing.\<close>

definition default_config :: CacheConfig where
  "default_config = \<lparr>strategy = CONTEXT_AWARE, ttl = 3600, maxSize = 50\<rparr>"

definition sleep_intent :: Intent where
  "sleep_intent = \<lparr>intent = SLEEP, confidence = 9 / 10, timeHint = None, rawInput = ''good night''\<rparr>"

definition bath_intent :: Intent where
  "bath_intent = \<lparr>intent = BATH_PREPARE, confidence = 9 / 10, timeHint = None, rawInput = ''bath''\<rparr>"

text \<open>The entry for "sleep" of the table in \<open>fallbackPlan\<close>, built at clock reading
  1700000000000; name and description are the UTF-8 bytes of the source's literals.\<close>

definition fallback_sleep :: Plan where
  "fallback_sleep =
     \<lparr>planId = ''fallback_sleep_1700000000000'',
      plan_intent = SLEEP,
      steps = [\<lparr>service = ''light.turn_off'', step_entityId = ''light.living_room'',
                targetName = [CHR 0xE5, CHR 0xAE, CHR 0xA2, CHR 0xE5, CHR 0x8E, CHR 0x85,
                  CHR 0xE7, CHR 0x81, CHR 0xAF],
                description = [CHR 0xE5, CHR 0x85, CHR 0xB3, CHR 0xE9, CHR 0x97, CHR 0xAD,
                  CHR 0xE5, CHR 0xAE, CHR 0xA2, CHR 0xE5, CHR 0x8E, CHR 0x85, CHR 0xE7, CHR 0x81,
                  CHR 0xAF]\<rparr>],
      estimatedTime = Some 1,
      plan_confidence = 8 / 10,
      cacheable = True\<rparr>"

definition living_room_light :: "string \<Rightarrow> DeviceState" where
  "living_room_light st =
     \<lparr>entityId = ''light.living_room'', entityName = ''Living room'', state = st\<rparr>"

definition snapshot :: "TimeOfDay \<Rightarrow> real \<Rightarrow> real \<Rightarrow> DeviceState list \<Rightarrow> ContextState" where
  "snapshot tod t h ds =
     \<lparr>timestamp = ''2024-01-01T08:00:00.000Z'', devices = ds, presence = Some True,
      timeOfDay = tod, temperature = Some t, humidity = Some h\<rparr>"

definition snapshot_A :: ContextState where
  "snapshot_A = snapshot morning (double (2004 / 100)) 45 [living_room_light ''on'']"

definition snapshot_B :: ContextState where
  "snapshot_B = snapshot morning (double (2006 / 100)) 45 [living_room_light ''on'']"

definition snapshot_D :: ContextState where
  "snapshot_D = snapshot afternoon (double (204 / 10)) 80 [living_room_light ''off'']"

definition snapshot_E :: ContextState where
  "snapshot_E = snapshot evening (double (204 / 10)) 80 [living_room_light ''off'']"

definition snapshot_F :: ContextState where
  "snapshot_F = snapshot afternoon (double (205 / 10)) 80 [living_room_light ''off'']"



text \<open>Two spellings of one identifier, canonically equivalent: the last letter is
  U+00E9 in the first and U+0065 U+0301 in the second.\<close>

definition cafe_id_nfc :: string where
  "cafe_id_nfc = ''light.caf'' @ [CHR 0xC3, CHR 0xA9]"

definition cafe_id_nfd :: string where
  "cafe_id_nfd = ''light.cafe'' @ [CHR 0xCC, CHR 0x81]"








definition key_A :: string where
  "key_A = ''context:sleep:4139fd8900953fd7bca6e9578aa0a069''"

definition key_D :: string where
  "key_D = ''context:sleep:131551770392301e4282017231350651''"

definition entry_A :: CacheEntry where
  "entry_A = \<lparr>cacheKey = key_A, entry_intent = SLEEP, plan = fallback_sleep,
     contextHash = ''4139fd8900953fd7bca6e9578aa0a069'', lastUsed = 0, usageCount = 1,
     successRate = 1\<rparr>"

text \<open>
  The MD5 digests, as the platform computes them, of the serialisations of the sample
  snapshots. The serialisation of \<open>snapshot_D\<close> is
  \<^verbatim>\<open>{"timeOfDay":"afternoon","presence":true,"temperature":20.4,"humidity":80,"devices":[{"id":"light.living_room","state":"off"}]}\<close>
  and the others follow the same pattern, with the rounded readings (20 for
  \<open>snapshot_A\<close>, 20.1 for \<open>snapshot_B\<close>) and the sorted devices. The digest of
  \<open>snapshot_D\<close> is a JSON number (digits, the letter e, digits), one of the few digests
  that \<open>JSON.parse\<close> accepts. Elsewhere the table is empty; no theorem reads it there.
\<close>

definition md5_samples :: "NormalizedContext \<Rightarrow> string" where
  "md5_samples n =
     (if norm_presence n = Some True \<and> norm_timeOfDay n = morning \<and> norm_humidity n = 45 \<and>
         norm_temperature n = 20 \<and> norm_devices n = [(''light.living_room'', ''on'')]
      then ''4139fd8900953fd7bca6e9578aa0a069''
      else if norm_presence n = Some True \<and> norm_timeOfDay n = morning \<and> norm_humidity n = 45 \<and>
         norm_temperature n = double (201 / 10) \<and> norm_devices n = [(''light.living_room'', ''on'')]
      then ''ffb2e4503cb93e7c9ad141cb1f459f3b''
      else if norm_presence n = Some True \<and> norm_timeOfDay n = afternoon \<and> norm_humidity n = 80 \<and>
         norm_temperature n = double (204 / 10) \<and> norm_devices n = [(''light.living_room'', ''off'')]
      then ''131551770392301e4282017231350651''
      else if norm_presence n = Some True \<and> norm_timeOfDay n = evening \<and> norm_humidity n = 80 \<and>
         norm_temperature n = double (204 / 10) \<and> norm_devices n = [(''light.living_room'', ''off'')]
      then ''f0f47f96852d3460f86f6212b37ead36''
      else if norm_presence n = Some True \<and> norm_timeOfDay n = afternoon \<and> norm_humidity n = 80 \<and>
         norm_temperature n = double (205 / 10) \<and> norm_devices n = [(''light.living_room'', ''off'')]
      then ''fbc99f4ea4a6a4575e9fce84662758b7''
      else if norm_presence n = Some True \<and> norm_timeOfDay n = morning \<and> norm_humidity n = 45 \<and>
         norm_temperature n = 20 \<and>
         norm_devices n = [(''light.living_room'', ''on''), (''light.living_room'', ''off'')]
      then ''0314b96bd9a8771c7ea47549baf11a3b''
      else if norm_presence n = Some True \<and> norm_timeOfDay n = morning \<and> norm_humidity n = 45 \<and>
         norm_temperature n = 20 \<and>
         norm_devices n = [(''light.living_room'', ''off''), (''light.living_room'', ''on'')]
      then ''9067b092af553f87d72a2bf5ad3fc5c4''
      else if norm_presence n = Some True \<and> norm_timeOfDay n = night \<and> norm_humidity n = 55 \<and>
         norm_temperature n = 20 \<and>
         norm_devices n = [(''light.bathroom'', ''off''), (''light.living_room'', ''on'')]
      then ''1e193b7daf4aa14a4b098ebe1f672ba7''
      else if norm_presence n = Some True \<and> norm_timeOfDay n = morning \<and> norm_humidity n = 45 \<and>
         norm_temperature n = 20 \<and> norm_devices n = [(cafe_id_nfc, ''on''), (cafe_id_nfd, ''off'')]
      then ''f08bc79420d791874458b5de968f55ca''
      else if norm_presence n = Some True \<and> norm_timeOfDay n = morning \<and> norm_humidity n = 45 \<and>
         norm_temperature n = 20 \<and> norm_devices n = [(cafe_id_nfd, ''off''), (cafe_id_nfc, ''on'')]
      then ''d913e5c5962664ea1adbbe8e141f4041''
      else [])"

text \<open>
  The values of \<open>localeCompare\<close> on the entity ids of the sample snapshots: equal ids
  and the two spellings of the canonically equivalent id compare as 0, and
  \<open>light.bathroom\<close> sorts before \<open>light.living_room\<close>. On these ids the function is
  the byte order but for the tie.
\<close>

definition sample_localeCompare :: "string \<Rightarrow> string \<Rightarrow> int" where
  "sample_localeCompare a b =
     (if a = b \<or> (a = cafe_id_nfc \<and> b = cafe_id_nfd) \<or> (a = cafe_id_nfd \<and> b = cafe_id_nfc) then 0
      else if a < b then - 1 else 1)"

definition sample_platform :: Platform where
  "sample_platform = \<lparr>localeCompare = sample_localeCompare, md5_hex = md5_samples\<rparr>"

text \<open>Sample runs: a map with the plan for "sleep" stored under \<open>snapshot_A\<close>; the map
  with a plan stored under \<open>snapshot_D\<close> and one under \<open>snapshot_A\<close>, the latter after three
  reported failures; and a sequence of operations on a cache of capacity two.\<close>

definition cache_A :: EntryMap where
  "cache_A = store sample_platform default_config 0 [] sleep_intent fallback_sleep (Some snapshot_A)"

definition cache_D :: EntryMap where
  "cache_D = store sample_platform default_config 0 [] sleep_intent
     (validateAndRefinePlan fallback_sleep snapshot_D) (Some snapshot_D)"

definition cache_DA_low :: EntryMap where
  "cache_DA_low = run sample_platform default_config
     [(0, Store sleep_intent (validateAndRefinePlan fallback_sleep snapshot_D) (Some snapshot_D)),
      (10, Store sleep_intent fallback_sleep (Some snapshot_A)),
      (20, UpdateSuccessRate key_A False),
      (30, UpdateSuccessRate key_A False),
      (40, UpdateSuccessRate key_A False)]"

definition cache_A_low :: EntryMap where
  "cache_A_low = run sample_platform default_config
     [(0, Store sleep_intent fallback_sleep (Some snapshot_A)),
      (20, UpdateSuccessRate key_A False),
      (30, UpdateSuccessRate key_A False),
      (40, UpdateSuccessRate key_A False)]"

definition cache_A_fsff :: EntryMap where
  "cache_A_fsff = run sample_platform default_config
     [(0, Store sleep_intent fallback_sleep (Some snapshot_A)),
      (20, UpdateSuccessRate key_A False),
      (30, UpdateSuccessRate key_A True),
      (40, UpdateSuccessRate key_A False),
      (50, UpdateSuccessRate key_A False)]"

definition small_config :: CacheConfig where
  "small_config = \<lparr>strategy = CONTEXT_AWARE, ttl = 3600, maxSize = 2\<rparr>"

definition sample_ops :: "(int \<times> Operation) list" where
  "sample_ops =
     [(0, Store sleep_intent fallback_sleep (Some snapshot_A)),
      (10, Store bath_intent fallback_sleep (Some snapshot_A)),
      (20, Query sleep_intent (Some snapshot_A)),
      (30, Store sleep_intent fallback_sleep (Some snapshot_D)),
      (40, UpdateSuccessRate key_D False),
      (50, Query sleep_intent (Some snapshot_B)),
      (60, Delete key_A),
      (70, Store bath_intent fallback_sleep None),
      (80, Clear)]"

section \<open>IEEE doubles: lemmas\<close>

lemma round_half_even_nonneg: "0 \<le> m \<Longrightarrow> 0 \<le> round_half_even m"
  by (auto simp: round_half_even_def Let_def)

lemma round_half_even_le: "m \<le> of_int k \<Longrightarrow> round_half_even m \<le> k"
proof -
  assume a: "m \<le> of_int k"
  show ?thesis
  proof (cases "m = of_int k")
    case True
    then show ?thesis by (simp add: round_half_even_def Let_def)
  next
    case False
    with a have "m < of_int k" by simp
    then have "\<lfloor>m\<rfloor> < k" by (simp add: floor_less_iff)
    then show ?thesis by (auto simp: round_half_even_def Let_def)
  qed
qed

lemma exponent_up_nonneg: "0 \<le> exponent_up n a"
proof (induction n a rule: exponent_up.induct)
  case (1 n a)
  show ?case
  proof (cases "n = 0 \<or> a < 2")
    case True
    then have "exponent_up n a = 0" by (subst exponent_up.simps) simp
    then show ?thesis by simp
  next
    case False
    then have "exponent_up n a = exponent_up (n - 1) (a / 2) + 1" by (subst exponent_up.simps) simp
    with 1 False show ?thesis by simp
  qed
qed

lemma exponent_up_le: "1 \<le> a \<Longrightarrow> 2 powi (exponent_up n a) \<le> a"
proof (induction n a rule: exponent_up.induct)
  case (1 n a)
  show ?case
  proof (cases "n = 0 \<or> a < 2")
    case True
    then have "exponent_up n a = 0" by (subst exponent_up.simps) simp
    with 1 show ?thesis by simp
  next
    case False
    then have eq: "exponent_up n a = exponent_up (n - 1) (a / 2) + 1" by (subst exponent_up.simps) simp
    from False have "1 \<le> a / 2" by simp
    with 1 False have "2 powi (exponent_up (n - 1) (a / 2)) \<le> a / 2" by simp
    then show ?thesis using exponent_up_nonneg [of "n - 1" "a / 2"]
      by (simp add: eq power_int_add)
  qed
qed

lemma exponent_down_neg: "exponent_down n a \<le> - 1"
proof (induction n a rule: exponent_down.induct)
  case (1 n a)
  show ?case
  proof (cases "n = 0 \<or> 1 \<le> 2 * a")
    case True
    then have "exponent_down n a = - 1" by (subst exponent_down.simps) simp
    then show ?thesis by simp
  next
    case False
    then have "exponent_down n a = exponent_down (n - 1) (2 * a) - 1" by (subst exponent_down.simps) simp
    with 1 False show ?thesis by simp
  qed
qed

lemma exponent_le:
  assumes "0 < a" and "a \<le> 2 ^ n"
  shows "exponent a \<le> int n"
proof (cases "1 \<le> a")
  case True
  then have "2 powi (exponent a) \<le> a" by (simp add: exponent_def exponent_up_le)
  with assms(2) have "(2::real) powi (exponent a) \<le> 2 powi (int n)" by simp
  then show ?thesis
    using power_int_le_imp_le_exp [of 2 "exponent a" "int n"] by simp
next
  case False
  then have "exponent a \<le> - 1" by (simp add: exponent_def exponent_down_neg)
  then show ?thesis by simp
qed

text \<open>Rounding does not cross a power of two.\<close>

lemma double_abs_le:
  assumes "\<bar>x\<bar> \<le> 2 ^ n"
  shows "\<bar>double x\<bar> \<le> 2 ^ n"
proof (cases "x = 0")
  case True
  then show ?thesis by (simp add: double_def)
next
  case False
  define a where "a = \<bar>x\<bar>"
  define e where "e = exponent a"
  define q :: real where "q = 2 powi (e - 52)"
  define k :: int where "k = 2 ^ nat (int n - e + 52)"
  have a0: "0 < a" using False by (simp add: a_def)
  have en: "e \<le> int n" using a0 assms by (simp add: e_def a_def exponent_le)
  have q0: "0 < q" by (simp add: q_def)
  have kq: "of_int k * q = 2 ^ n"
  proof -
    have "of_int k = (2::real) powi (int n - e + 52)"
      using en by (simp add: k_def power_int_def)
    moreover have "(2::real) powi (int n - e + 52) * 2 powi (e - 52) =
        2 powi ((int n - e + 52) + (e - 52))"
      by (rule power_int_add [symmetric]) simp
    ultimately have "of_int k * q = (2::real) powi ((int n - e + 52) + (e - 52))"
      by (simp only: q_def)
    then show ?thesis by simp
  qed
  have "a / q \<le> of_int k"
    using assms kq q0 by (simp add: a_def pos_divide_le_eq)
  then have r: "round_half_even (a / q) \<le> k" by (rule round_half_even_le)
  have r0: "0 \<le> round_half_even (a / q)" using a0 q0 by (simp add: round_half_even_nonneg)
  have "\<bar>double x\<bar> = of_int (round_half_even (a / q)) * q"
    using False r0 q0 by (simp add: double_def Let_def a_def e_def q_def abs_mult abs_sgn_eq)
  also have "\<dots> \<le> of_int k * q" using r q0 by simp
  finally show ?thesis using kq by simp
qed

lemma double_nonneg: "0 \<le> x \<Longrightarrow> 0 \<le> double x"
  by (auto simp: double_def Let_def round_half_even_nonneg sgn_if)

lemma to_Score_finite:
  assumes "\<bar>x\<bar> \<le> 2 ^ 53"
  shows "to_Score x = Finite (double x)"
proof (cases "x = 0")
  case True
  then show ?thesis by (simp add: to_Score_def overflows_def)
next
  case False
  then have "exponent \<bar>x\<bar> \<le> int 53" using assms by (intro exponent_le) auto
  then have "exponent \<bar>x\<bar> \<noteq> 1023" by simp
  then show ?thesis by (simp add: to_Score_def overflows_def)
qed

lemma js_increment_bound: "int n \<le> 2 ^ 53 \<Longrightarrow> int (js_increment n) \<le> 2 ^ 53"
  by (simp add: js_increment_def)

section \<open>Refinement: lemmas\<close>

lemma refineStep_clear: "clearDescription (refineStep context step) = clearDescription step"
  by (simp add: refineStep_def clearDescription_def split: option.split)

lemma refineStep_service: "service (refineStep context step) = service step"
  by (simp add: refineStep_def split: option.split)

lemma refineStep_entityId: "step_entityId (refineStep context step) = step_entityId step"
  by (simp add: refineStep_def split: option.split)

lemma refineStep_targetName: "targetName (refineStep context step) = targetName step"
  by (simp add: refineStep_def split: option.split)

lemma refinedSteps_map: "refinedSteps context ss = map (refineStep context) ss"
  by (induction ss) simp_all

lemma annotated_refineStep: "annotated context (refineStep context step) = annotated context step"
  by (simp add: annotated_def refineStep_entityId refineStep_service split: option.split)

lemma refineStep_unannotated: "\<not> annotated context step \<Longrightarrow> refineStep context step = step"
  by (auto simp: annotated_def refineStep_def split: option.splits)

lemma refineStep_annotated_length:
  "annotated context step \<Longrightarrow>
     length (description step) < length (description (refineStep context step))"
  by (auto simp: annotated_def refineStep_def marker_already_on_def marker_already_off_def
      marker_skipped_def marker_warning_def split: option.splits)

lemma refineStep_twice_description:
  "description (refineStep context (refineStep context step)) =
     description (refineStep context step) \<longleftrightarrow> \<not> annotated context step"
proof (cases "annotated context step")
  case True
  then have "annotated context (refineStep context step)"
    by (simp add: annotated_refineStep)
  then have "length (description (refineStep context step)) <
      length (description (refineStep context (refineStep context step)))"
    by (rule refineStep_annotated_length)
  with True show ?thesis by auto
next
  case False
  then show ?thesis by (simp add: refineStep_unannotated)
qed

section \<open>Refinement: claims\<close>

text \<open>
  C9. For every plan and snapshot, the refined plan has as many steps as the input plan,
  in the same order, and each step keeps its service, entityId and targetName: once the
  descriptions are blanked, the refined steps are the input steps. The other fields of
  the plan are untouched.
\<close>

theorem validateAndRefinePlan_frame:
  "length (steps (validateAndRefinePlan p context)) = length (steps p) \<and>
   map service (steps (validateAndRefinePlan p context)) = map service (steps p) \<and>
   map step_entityId (steps (validateAndRefinePlan p context)) = map step_entityId (steps p) \<and>
   map targetName (steps (validateAndRefinePlan p context)) = map targetName (steps p) \<and>
   map clearDescription (steps (validateAndRefinePlan p context)) = map clearDescription (steps p) \<and>
   (validateAndRefinePlan p context)\<lparr>steps := steps p\<rparr> = p"
  by (simp add: validateAndRefinePlan_def refinedSteps_map refineStep_clear refineStep_service
      refineStep_entityId refineStep_targetName comp_def)

text \<open>
  C10, as stated, fails: the fallback plan for "sleep" turns the living-room light off, and
  in \<open>snapshot_D\<close> that light is off. The first refinement wraps the description in the
  two skip markers, and the second wraps the wrapped description again.
\<close>

theorem validateAndRefinePlan_twice_counterexample:
  "map description
     (steps (validateAndRefinePlan (validateAndRefinePlan fallback_sleep snapshot_D) snapshot_D)) \<noteq>
   map description (steps (validateAndRefinePlan fallback_sleep snapshot_D))"
  by code_simp

text \<open>
  C10, amended. A second refinement against the same snapshot leaves the descriptions as
  the first one made them exactly when no step of the plan meets an annotation condition
  (target absent from the snapshot, or already on for a turn-on step, or already off for a
  turn-off step).
\<close>

theorem validateAndRefinePlan_twice:
  "map description (steps (validateAndRefinePlan (validateAndRefinePlan p context) context)) =
     map description (steps (validateAndRefinePlan p context)) \<longleftrightarrow>
   \<not> list_ex (annotated context) (steps p)"
proof -
  have "map description (steps (validateAndRefinePlan (validateAndRefinePlan p context) context)) =
      map description (steps (validateAndRefinePlan p context)) \<longleftrightarrow>
    (\<forall>s\<in>set (steps p). description (refineStep context (refineStep context s)) =
       description (refineStep context s))"
    by (simp add: validateAndRefinePlan_def refinedSteps_map)
  also have "\<dots> \<longleftrightarrow> (\<forall>s\<in>set (steps p). \<not> annotated context s)"
    by (simp add: refineStep_twice_description)
  also have "\<dots> \<longleftrightarrow> \<not> list_ex (annotated context) (steps p)"
    by (simp add: list_ex_iff)
  finally show ?thesis .
qed

text \<open>
  Witness for C10: in \<open>snapshot_A\<close> the living-room light is on, so the turn-off step of
  the fallback plan is not annotated and refining twice changes nothing more.
\<close>

theorem validateAndRefinePlan_twice_witness:
  "\<not> list_ex (annotated snapshot_A) (steps fallback_sleep) \<and>
   map description
     (steps (validateAndRefinePlan (validateAndRefinePlan fallback_sleep snapshot_A) snapshot_A)) =
   map description (steps (validateAndRefinePlan fallback_sleep snapshot_A))"
proof -
  have h: "\<not> list_ex (annotated snapshot_A) (steps fallback_sleep)"
    by code_simp
  with validateAndRefinePlan_twice [of fallback_sleep snapshot_A] show ?thesis
    by simp
qed

section \<open>Plan cache: lemmas\<close>

lemma JSON_parse_simple: "\<not> JSON_parse ''simple''"
  by code_simp

lemma generateCacheKey_nonempty: "generateCacheKey platform config i context \<noteq> []"
  by (simp add: generateCacheKey_def split: option.split)

lemma list_all_delete: "list_all P cache \<Longrightarrow> list_all P (AList.delete k cache)"
  by (simp add: AList.delete_eq list_all_iff)

lemma list_all_update: "list_all P cache \<Longrightarrow> P (k, v) \<Longrightarrow> list_all P (AList.update k v cache)"
  by (induction cache) auto

lemma length_update_le: "length (AList.update k v cache) \<le> Suc (length cache)"
  by (induction cache) auto

lemma length_update_present: "k \<in> fst ` set cache \<Longrightarrow> length (AList.update k v cache) = length cache"
  by (induction cache) auto

lemma length_delete_present: "k \<in> fst ` set cache \<Longrightarrow> length (AList.delete k cache) < length cache"
  by (auto simp: AList.delete_eq intro: length_filter_less)

text \<open>A query whose exact key is present: the fuzzy match is not consulted.\<close>

lemma query_exact:
  assumes "strategy config \<noteq> NONE"
    and "map_of cache (generateCacheKey platform config i context) = Some entry"
  shows "query platform config now cache i context =
     (if isExpired config now entry
      then Inr (Miss Expired, AList.delete (generateCacheKey platform config i context) cache)
      else Inr (Hit (entry\<lparr>usageCount := js_increment (usageCount entry), lastUsed := now\<rparr>),
                AList.update (generateCacheKey platform config i context)
                  (entry\<lparr>usageCount := js_increment (usageCount entry), lastUsed := now\<rparr>) cache))"
  using assms by (simp add: query_def Let_def)

lemma store_lookup:
  assumes "strategy config \<noteq> NONE" and "cacheable p"
  shows "map_of (store platform config now cache i p context) (generateCacheKey platform config i context) =
     Some \<lparr>cacheKey = generateCacheKey platform config i context, entry_intent = intent i, plan = p,
           contextHash = (case context of Some c \<Rightarrow> computeContextHash platform c | None \<Rightarrow> ''simple''),
           lastUsed = now, usageCount = 1, successRate = 1\<rparr>"
  using assms by (simp add: store_def Let_def update_conv')

lemma findFuzzyMatch_loop_no_intent:
  "list_all (\<lambda>(key, entry). entry_intent entry \<noteq> i) cache \<Longrightarrow> findFuzzyMatch_loop i t cache = Inr None"
  by (induction cache) auto

lemma findFuzzyMatch_loop_member:
  "findFuzzyMatch_loop i t cache = Inr (Some (k, e)) \<Longrightarrow> (k, e) \<in> set cache"
  by (induction cache) (auto split: if_splits)

lemma query_absent:
  assumes "map_of cache (generateCacheKey platform config i context) = None"
    and "strategy config \<noteq> CONTEXT_AWARE \<or> context = None \<or>
       list_all (\<lambda>(key, entry). entry_intent entry \<noteq> intent i) cache"
  shows "\<exists>reason. query platform config now cache i context = Inr (Miss reason, cache)"
  using assms
  by (auto simp: query_def Let_def findFuzzyMatch_def findFuzzyMatch_loop_no_intent split: option.split)

lemma updateSuccessRate_absent: "map_of cache k = None \<Longrightarrow> updateSuccessRate cache k success = cache"
  by (simp add: updateSuccessRate_def)

lemma updateSuccessRate_kept:
  assumes "map_of cache k = Some entry" and "double (3 / 10) \<le> newRate (successRate entry) success"
  shows "updateSuccessRate cache k success =
     AList.update k (entry\<lparr>successRate := newRate (successRate entry) success\<rparr>) cache"
  using assms by (auto simp: updateSuccessRate_def)

lemma updateSuccessRate_dropped:
  assumes "map_of cache k = Some entry" and "newRate (successRate entry) success < double (3 / 10)"
  shows "updateSuccessRate cache k success = AList.delete k cache"
  using assms by (auto simp: updateSuccessRate_def)

lemma newRate_bounds:
  assumes "0 \<le> r" and "r \<le> 1"
  shows "0 \<le> newRate r success \<and> newRate r success \<le> 1"
proof (cases success)
  case True
  have "0 \<le> double (1 / 10)" by (rule double_nonneg) simp
  with assms(1) have "0 \<le> double (r + double (1 / 10))" by (intro double_nonneg) simp
  with True show ?thesis by (simp add: newRate_def)
next
  case False
  have c0: "0 \<le> double (2 / 10)" by (rule double_nonneg) simp
  have "\<bar>double (2 / 10)\<bar> \<le> 2 ^ 0" by (rule double_abs_le) simp
  with c0 have c1: "double (2 / 10) \<le> 1" by simp
  from assms c0 c1 have "\<bar>r - double (2 / 10)\<bar> \<le> 2 ^ 0" by simp
  then have "\<bar>double (r - double (2 / 10))\<bar> \<le> 2 ^ 0" by (rule double_abs_le)
  then have "double (r - double (2 / 10)) \<le> 1" by simp
  with False show ?thesis by (simp add: newRate_def)
qed

subsection \<open>Sorting the device records\<close>











subsection \<open>Eviction\<close>

lemma evict_loop_Some: "evict_loop now cache (Some k) m \<noteq> None"
  by (induction cache arbitrary: k m) auto

lemma evict_loop_key:
  "evict_loop now cache acc m = Some k \<Longrightarrow> acc = Some k \<or> k \<in> fst ` set cache"
proof (induction cache arbitrary: acc m)
  case Nil
  then show ?case by simp
next
  case (Cons a cache)
  obtain key entry where a: "a = (key, entry)" by (cases a)
  show ?case
  proof (cases "Score_less (score now entry) m")
    case True
    with Cons.prems a have "evict_loop now cache (Some key) (score now entry) = Some k" by simp
    from Cons.IH [OF this] a show ?thesis by auto
  next
    case False
    with Cons.prems a have "evict_loop now cache acc m = Some k" by simp
    from Cons.IH [OF this] show ?thesis by auto
  qed
qed

lemma score_finite:
  assumes "lastUsed entry \<le> now" and "int (usageCount entry) \<le> 2 ^ 53"
    and "0 \<le> successRate entry" and "successRate entry \<le> 1"
  shows "Score_less (score now entry) PosInfinity"
proof -
  define x where "x = real (usageCount entry) * successRate entry"
  define b where "b = 1 + real_of_int (now - lastUsed entry)"
  have u: "real (usageCount entry) \<le> 2 ^ 53"
    using assms(2) by (metis of_int_le_iff of_int_numeral of_int_of_nat_eq of_int_power)
  have "0 \<le> x" using assms(3) by (simp add: x_def)
  moreover have "x \<le> real (usageCount entry) * 1"
    unfolding x_def using assms(4) by (intro mult_left_mono) auto
  ultimately have x: "\<bar>x\<bar> \<le> 2 ^ 53" using u by simp
  then have d: "\<bar>double x\<bar> \<le> 2 ^ 53" by (rule double_abs_le)
  have b1: "1 \<le> b" using assms(1) by (simp add: b_def)
  have "1 * \<bar>double x\<bar> \<le> b * \<bar>double x\<bar>"
    using b1 by (intro mult_right_mono) auto
  then have "\<bar>double x / b\<bar> \<le> \<bar>double x\<bar>"
    using b1 by (simp add: abs_divide pos_divide_le_eq mult.commute)
  with d have q: "\<bar>double x / b\<bar> \<le> 2 ^ 53" by linarith
  have "to_Score (real (usageCount entry) * successRate entry) = Finite (double x)"
    using to_Score_finite [OF x] by (simp add: x_def)
  then have "score now entry = to_Score (double x / b)"
    using b1 by (simp add: score_def js_divide_def b_def)
  then show ?thesis by (simp add: to_Score_finite [OF q])
qed

lemma evictLeastUseful_shrinks:
  assumes "cache \<noteq> []" and "list_all (entry_fresh now) cache"
    and "list_all (\<lambda>(key, entry). entry_ok entry) cache"
  shows "length (evictLeastUseful now cache) < length cache"
proof -
  obtain key entry rest where c: "cache = (key, entry) # rest"
    using assms(1) by (cases cache) auto
  with assms(2,3) have "Score_less (score now entry) PosInfinity"
    by (intro score_finite) (simp_all add: entry_fresh_def entry_ok_def)
  then have first: "evict_loop now cache None PosInfinity = evict_loop now rest (Some key) (score now entry)"
    using c by simp
  then obtain k where k: "evict_loop now cache None PosInfinity = Some k"
    using evict_loop_Some [of now rest key "score now entry"] by auto
  with first have "k = key \<or> k \<in> fst ` set rest"
    using evict_loop_key [of now rest "Some key" "score now entry" k] by auto
  then have mem: "k \<in> fst ` set cache" using c by auto
  with assms(2) have "k \<noteq> []" by (auto simp: list_all_iff entry_fresh_def)
  with k assms(1) have "evictLeastUseful now cache = AList.delete k cache"
    by (simp add: evictLeastUseful_def)
  with mem show ?thesis by (simp add: length_delete_present)
qed

lemma evictLeastUseful_cases:
  "evictLeastUseful now cache = cache \<or> (\<exists>k. evictLeastUseful now cache = AList.delete k cache)"
  by (auto simp: evictLeastUseful_def split: option.split)

lemma evictLeastUseful_list_all: "list_all P cache \<Longrightarrow> list_all P (evictLeastUseful now cache)"
  using evictLeastUseful_cases [of now cache] by (auto simp: list_all_delete)

lemma evictLeastUseful_distinct: "distinct (map fst cache) \<Longrightarrow> distinct (map fst (evictLeastUseful now cache))"
  using evictLeastUseful_cases [of now cache] by (auto simp: distinct_delete)

subsection \<open>Each operation keeps the invariant\<close>

lemma entry_fresh_mono: "t \<le> now \<Longrightarrow> list_all (entry_fresh t) cache \<Longrightarrow> list_all (entry_fresh now) cache"
  by (auto simp: list_all_iff entry_fresh_def)

lemma inv_mono: "t \<le> now \<Longrightarrow> cache_inv config t cache \<Longrightarrow> cache_inv config now cache"
  by (auto simp: cache_inv_def entry_fresh_mono)

lemma inv_delete: "cache_inv config now cache \<Longrightarrow> cache_inv config now (AList.delete k cache)"
  using length_delete_le [of k cache]
  by (auto simp: cache_inv_def cache_invariant_def list_all_delete distinct_delete)

lemma inv_update_present:
  assumes "cache_inv config now cache" and "k \<in> fst ` set cache" and "entry_ok v" and "entry_fresh now (k, v)"
  shows "cache_inv config now (AList.update k v cache)"
  using assms
  by (auto simp: cache_inv_def cache_invariant_def list_all_update distinct_update length_update_present)

lemma inv_store:
  assumes "cache_inv config now cache" and "1 \<le> maxSize config"
  shows "cache_inv config now (store platform config now cache i p context)"
proof (cases "strategy config = NONE \<or> \<not> cacheable p")
  case True
  with assms show ?thesis by (auto simp: store_def)
next
  case False
  define cache' where "cache' = (if int (length cache) \<ge> maxSize config then evictLeastUseful now cache else cache)"
  define key where "key = generateCacheKey platform config i context"
  define entry where "entry = \<lparr>cacheKey = key, entry_intent = intent i, plan = p,
      contextHash = (case context of Some c \<Rightarrow> computeContextHash platform c | None \<Rightarrow> ''simple''),
      lastUsed = now, usageCount = 1, successRate = 1\<rparr>"
  have st: "store platform config now cache i p context = AList.update key entry cache'"
    using False by (simp add: store_def Let_def cache'_def key_def entry_def)
  have ok: "entry_ok entry" using False by (simp add: entry_ok_def entry_def)
  have fresh: "entry_fresh now (key, entry)"
    by (simp add: entry_fresh_def entry_def key_def generateCacheKey_nonempty)
  have all1: "list_all (\<lambda>(key, entry). entry_ok entry) cache'" and all2: "list_all (entry_fresh now) cache'"
    and dist: "distinct (map fst cache')"
    using assms(1)
    by (auto simp: cache'_def cache_inv_def cache_invariant_def evictLeastUseful_list_all evictLeastUseful_distinct)
  have len: "int (length cache') < maxSize config"
  proof (cases "int (length cache) \<ge> maxSize config")
    case True
    with assms(2) have "cache \<noteq> []" by auto
    then have "length (evictLeastUseful now cache) < length cache"
      using assms(1) by (intro evictLeastUseful_shrinks) (auto simp: cache_inv_def cache_invariant_def)
    moreover have "int (length cache) \<le> maxSize config"
      using assms(1) by (simp add: cache_inv_def cache_invariant_def)
    ultimately show ?thesis using True by (simp add: cache'_def)
  next
    case False
    then show ?thesis by (simp add: cache'_def)
  qed
  have "int (length (AList.update key entry cache')) \<le> maxSize config"
    using len length_update_le [of key entry cache'] by linarith
  with all1 all2 dist ok fresh show ?thesis
    by (simp add: st cache_inv_def cache_invariant_def list_all_update distinct_update)
qed

lemma inv_touch:
  assumes "cache_inv config now cache" and "(k, entry) \<in> set cache"
  shows "cache_inv config now (AList.update k (entry\<lparr>usageCount := js_increment (usageCount entry), lastUsed := now\<rparr>) cache)"
proof (rule inv_update_present [OF assms(1)])
  show "k \<in> fst ` set cache" using assms(2) by force
  show "entry_ok (entry\<lparr>usageCount := js_increment (usageCount entry), lastUsed := now\<rparr>)"
    using assms by (auto simp: cache_inv_def cache_invariant_def list_all_iff entry_ok_def)
  show "entry_fresh now (k, entry\<lparr>usageCount := js_increment (usageCount entry), lastUsed := now\<rparr>)"
    using assms by (auto simp: cache_inv_def list_all_iff entry_fresh_def js_increment_def)
qed

lemma inv_query:
  assumes "cache_inv config now cache" and "query platform config now cache i context = Inr (result, cache')"
  shows "cache_inv config now cache'"
proof (cases "strategy config = NONE")
  case True
  with assms show ?thesis by (simp add: query_def)
next
  case False
  define key where "key = generateCacheKey platform config i context"
  define found where "found =
     (case map_of cache key of
        Some e \<Rightarrow> Inr (Some (key, e))
      | None \<Rightarrow>
          (case context of
             Some c \<Rightarrow> if strategy config = CONTEXT_AWARE then findFuzzyMatch cache i c else Inr None
           | None \<Rightarrow> Inr None))"
  have q: "query platform config now cache i context =
     (case found of
        Inl err \<Rightarrow> Inl err
      | Inr None \<Rightarrow> Inr (Miss NoMatch, cache)
      | Inr (Some (k, entry)) \<Rightarrow>
          if isExpired config now entry then Inr (Miss Expired, AList.delete key cache)
          else
            let entry' = entry\<lparr>usageCount := js_increment (usageCount entry), lastUsed := now\<rparr>
            in Inr (Hit entry', AList.update k entry' cache))"
    unfolding query_def Let_def key_def found_def using False by simp
  have mem: "(k, e) \<in> set cache" if "found = Inr (Some (k, e))" for k e
    using that
    by (auto simp: found_def findFuzzyMatch_def split: option.splits if_splits
        dest: map_of_SomeD findFuzzyMatch_loop_member)
  show ?thesis
  proof (cases found)
    case (Inl err)
    with assms(2) q show ?thesis by simp
  next
    case (Inr r)
    show ?thesis
    proof (cases r)
      case None
      with Inr assms q show ?thesis by simp
    next
      case (Some ke)
      obtain k e where ke: "ke = (k, e)" by (cases ke)
      have m: "(k, e) \<in> set cache" using mem Inr Some ke by simp
      show ?thesis
      proof (cases "isExpired config now e")
        case True
        with Inr Some ke assms(2) q have "cache' = AList.delete key cache" by simp
        with assms(1) show ?thesis by (simp add: inv_delete)
      next
        case False
        with Inr Some ke assms(2) q
        have "cache' = AList.update k (e\<lparr>usageCount := js_increment (usageCount e), lastUsed := now\<rparr>) cache"
          by (simp add: Let_def)
        with inv_touch [OF assms(1) m] show ?thesis by simp
      qed
    qed
  qed
qed

lemma inv_updateSuccessRate:
  assumes "cache_inv config now cache"
  shows "cache_inv config now (updateSuccessRate cache key success)"
proof (cases "map_of cache key")
  case None
  with assms show ?thesis by (simp add: updateSuccessRate_def)
next
  case (Some entry)
  then have m: "(key, entry) \<in> set cache" by (rule map_of_SomeD)
  with assms have ok: "entry_ok entry" and fr: "entry_fresh now (key, entry)"
    by (auto simp: cache_inv_def cache_invariant_def list_all_iff)
  define r where "r = newRate (successRate entry) success"
  have r01: "0 \<le> r \<and> r \<le> 1"
    using ok newRate_bounds [of "successRate entry" success] by (simp add: r_def entry_ok_def)
  show ?thesis
  proof (cases "r < double (3 / 10)")
    case True
    with Some have "updateSuccessRate cache key success = AList.delete key cache"
      by (simp add: updateSuccessRate_def r_def)
    with assms show ?thesis by (simp add: inv_delete)
  next
    case False
    with Some have "updateSuccessRate cache key success = AList.update key (entry\<lparr>successRate := r\<rparr>) cache"
      by (simp add: updateSuccessRate_def r_def)
    moreover have "cache_inv config now (AList.update key (entry\<lparr>successRate := r\<rparr>) cache)"
    proof (rule inv_update_present [OF assms])
      show "key \<in> fst ` set cache" using m by force
      show "entry_ok (entry\<lparr>successRate := r\<rparr>)" using ok r01 by (simp add: entry_ok_def)
      show "entry_fresh now (key, entry\<lparr>successRate := r\<rparr>)" using fr by (simp add: entry_fresh_def)
    qed
    ultimately show ?thesis by simp
  qed
qed

lemma inv_perform:
  assumes "cache_inv config t cache" and "t \<le> now" and "1 \<le> maxSize config"
  shows "cache_inv config now (perform platform config cache (now, op))"
proof -
  have i: "cache_inv config now cache" using assms(1,2) by (simp add: inv_mono)
  show ?thesis
  proof (cases op)
    case (Query x11 x12)
    then show ?thesis using i inv_query [OF i] by (auto split: sum.split)
  next
    case (Store x21 x22 x23)
    then show ?thesis using i assms(3) by (simp add: inv_store)
  next
    case (UpdateSuccessRate x31 x32)
    then show ?thesis using i by (simp add: inv_updateSuccessRate)
  next
    case (Delete x4)
    then show ?thesis using i by (simp add: delete_key_def inv_delete)
  next
    case Clear
    then show ?thesis using assms(3) by (simp add: clear_def cache_inv_def cache_invariant_def)
  qed
qed

lemma inv_foldl:
  assumes "cache_inv config t cache" and "sorted (map fst ops)" and "\<forall>x\<in>set ops. t \<le> fst x"
    and "1 \<le> maxSize config"
  shows "cache_invariant config (foldl (perform platform config) cache ops)"
  using assms
proof (induction ops arbitrary: t cache)
  case Nil
  then show ?case by (simp add: cache_inv_def)
next
  case (Cons x ops)
  obtain now op where x: "x = (now, op)" by (cases x)
  have "cache_inv config now (perform platform config cache (now, op))"
    using Cons.prems x by (intro inv_perform [of config t]) auto
  moreover have "sorted (map fst ops)" and "\<forall>y\<in>set ops. now \<le> fst y"
    using Cons.prems(2) x by auto
  ultimately show ?case
    using Cons.IH [of now "perform platform config cache (now, op)"] Cons.prems(4) x by simp
qed

section \<open>Plan cache: claims\<close>

text \<open>
  C1. The claim: after a cache hit, the outcome of the execution reaches the success rate
  of the entry that supplied the plan. The code calls \<open>updateSuccessRate\<close> with the
  plan's \<open>planId\<close>, while the entry sits under its cache key. The run below stores the
  fallback plan for "sleep" under \<open>snapshot_A\<close>, then processes the same intent under the
  same snapshot: the plan comes from the cache (\<open>cacheHit\<close> is true), the execution
  fails, and the entry's success rate is still 1.
\<close>

theorem processUserIntent_feedback_lost:
  "rates cache_A = [(key_A, 1)] \<and>
   observe (processUserIntent sample_platform default_config 1000 cache_A sleep_intent snapshot_A
      fallback_sleep FAILED) =
     Inr ((fallback_sleep, FAILED, True), [(key_A, 1)])"
  by code_simp

text \<open>
  C2. The claim: when the exact key misses, the fuzzy match returns the first entry of the
  same intent whose fingerprint shows the same time-of-day bucket or whose success rate
  exceeds 0.8. Two runs of the code. With the plan stored under \<open>snapshot_A\<close> (morning,
  rate 1) and the query made under \<open>snapshot_B\<close> (morning, another temperature), the
  call of \<open>JSON.parse\<close> on the stored digest throws. With the plan stored under
  \<open>snapshot_D\<close> (afternoon), whose digest happens to be a JSON number, the rate lowered
  by one failure to the double 0.8, which is not above 0.8, and the query made under
  \<open>snapshot_F\<close> (afternoon), the bucket is looked for in the cache key, which does not
  hold it: the query reports a miss.
\<close>

theorem findFuzzyMatch_same_bucket_missed:
  "timeOfDay snapshot_A = timeOfDay snapshot_B \<and>
   rates cache_A = [(key_A, 1)] \<and>
   outcome (query sample_platform default_config 1000 cache_A sleep_intent (Some snapshot_B)) =
     Inl SyntaxError \<and>
   timeOfDay snapshot_D = timeOfDay snapshot_F \<and>
   rates (updateSuccessRate cache_D key_D False) = [(key_D, double (8 / 10))] \<and>
   outcome (query sample_platform default_config 1000 (updateSuccessRate cache_D key_D False)
     sleep_intent (Some snapshot_F)) = Inr (Inr NoMatch)"
  by code_simp

text \<open>
  C3. The claim: \<open>query\<close> never throws. Under the default (context-aware) configuration,
  a plan stored without a snapshot gets the fingerprint "simple"; any later query for the
  same intent with a snapshot misses the exact key, reaches that entry in the fuzzy match
  and throws the SyntaxError of \<open>JSON.parse("simple")\<close>, whatever the platform's
  functions, the snapshot and the clock readings.
\<close>

theorem query_throws_SyntaxError:
  "query platform default_config now'
     (store platform default_config now [] sleep_intent fallback_sleep None)
     sleep_intent (Some context) = Inl SyntaxError"
  by (simp add: query_def store_def default_config_def sleep_intent_def fallback_sleep_def
      generateCacheKey_def findFuzzyMatch_def JSON_parse_simple Let_def)

text \<open>
  C4, as stated, fails for some configurations: with the strategy "none" the store is a
  no-op and the query reports that caching is disabled, and with a negative time-to-live
  the entry just stored is already expired. In both runs the plan is cacheable and the
  cache is empty before the store.
\<close>

theorem store_then_query_counterexample:
  "cacheable fallback_sleep \<and>
   outcome (query sample_platform (default_config\<lparr>strategy := NONE\<rparr>) 0
      (store sample_platform (default_config\<lparr>strategy := NONE\<rparr>) 0 [] sleep_intent fallback_sleep
         (Some snapshot_A))
      sleep_intent (Some snapshot_A)) = Inr (Inr CacheDisabled) \<and>
   outcome (query sample_platform (default_config\<lparr>ttl := - 1\<rparr>) 0
      (store sample_platform (default_config\<lparr>ttl := - 1\<rparr>) 0 [] sleep_intent fallback_sleep
         (Some snapshot_A))
      sleep_intent (Some snapshot_A)) = Inr (Inr Expired)"
  by code_simp

text \<open>
  C4, amended. For every configuration whose strategy is not "none", every intent,
  snapshot (or none) and cacheable plan, and every cache before the store, a store
  followed by a query with the same intent and snapshot, made no later than the
  time-to-live after the store, reports a hit with the stored plan. No condition on the
  capacity is needed: the eviction runs before the insertion.
\<close>

theorem store_then_query_hits:
  assumes "strategy config \<noteq> NONE" and "cacheable p" and "now' - now \<le> ttl config * 1000"
  shows "\<exists>entry cache'.
     query platform config now' (store platform config now cache i p context) i context =
       Inr (Hit entry, cache') \<and>
     plan entry = p \<and> cacheKey entry = generateCacheKey platform config i context \<and>
     usageCount entry = 2 \<and> lastUsed entry = now' \<and> successRate entry = 1"
  using assms(3)
  by (simp add: query_exact [OF assms(1) store_lookup [OF assms(1,2)]] isExpired_def
      js_increment_def)

text \<open>Witness for C4: the default configuration, the query one second after the store.\<close>

theorem store_then_query_hits_witness:
  "strategy default_config \<noteq> NONE \<and> cacheable fallback_sleep \<and>
   1000 - 0 \<le> ttl default_config * 1000 \<and>
   (\<exists>entry cache'.
      query sample_platform default_config 1000
        (store sample_platform default_config 0 [] sleep_intent fallback_sleep (Some snapshot_A))
        sleep_intent (Some snapshot_A) = Inr (Hit entry, cache') \<and>
      plan entry = fallback_sleep \<and>
      cacheKey entry = generateCacheKey sample_platform default_config sleep_intent (Some snapshot_A) \<and>
      usageCount entry = 2 \<and> lastUsed entry = 1000 \<and> successRate entry = 1)"
proof -
  have h1: "strategy default_config \<noteq> NONE" by (simp add: default_config_def)
  have h2: "cacheable fallback_sleep" by (simp add: fallback_sleep_def)
  have h3: "1000 - 0 \<le> ttl default_config * 1000" by (simp add: default_config_def)
  from store_then_query_hits [OF h1 h2 h3, of sample_platform "[]" sleep_intent "Some snapshot_A"]
    h1 h2 h3
  show ?thesis by blast
qed




text \<open>
  C6, as stated, fails in its last part. \<open>cache_DA_low\<close> holds two plans for "sleep": one
  stored under \<open>snapshot_D\<close> with rate 1, one stored under \<open>snapshot_A\<close> whose rate three
  failures have taken to the double 0.4000000000000001. A further failure takes that rate
  below 0.3 and deletes the entry; the next query under \<open>snapshot_A\<close> derives the deleted
  key and is answered with a hit, by the fuzzy match, from the first entry.
\<close>

theorem updateSuccessRate_then_query_counterexample:
  "rates cache_DA_low = [(key_D, 1), (key_A, 7205759403792795 / 18014398509481984)] \<and>
   generateCacheKey sample_platform default_config sleep_intent (Some snapshot_A) = key_A \<and>
   rates (updateSuccessRate cache_DA_low key_A False) = [(key_D, 1)] \<and>
   outcome (query sample_platform default_config 1000 (updateSuccessRate cache_DA_low key_A False)
     sleep_intent (Some snapshot_A)) = Inr (Inl key_D)"
  by code_simp

text \<open>
  C6, amended. For every entry present at key k with success rate r, a reported success
  computes min(1, r + 0.1) and a reported failure max(0, r - 0.2), the sum and the
  difference being those of the doubles (the exact result, rounded to the nearest
  double); the entry stays at k with that rate when it is at least the double 0.3. When
  it is below, the entry is deleted at once and the map holds nothing at k; a later query
  that derives that key reports a miss provided it cannot reach the fuzzy match or no
  other entry carries the same intent label (the strategy is not context-aware, or no
  snapshot is given, or every other entry has another intent).
\<close>

theorem updateSuccessRate_feedback:
  assumes "map_of cache k = Some entry"
  shows "(double (3 / 10) \<le> newRate (successRate entry) success \<longrightarrow>
            map_of (updateSuccessRate cache k success) k =
              Some (entry\<lparr>successRate := newRate (successRate entry) success\<rparr>)) \<and>
         (newRate (successRate entry) success < double (3 / 10) \<longrightarrow>
            map_of (updateSuccessRate cache k success) k = None \<and>
            (generateCacheKey platform config i context = k \<and>
             (strategy config \<noteq> CONTEXT_AWARE \<or> context = None \<or>
              list_all (\<lambda>(key, e). key = k \<or> entry_intent e \<noteq> intent i) cache) \<longrightarrow>
             is_miss (query platform config now (updateSuccessRate cache k success) i context))) \<and>
         newRate (successRate entry) True = min 1 (double (successRate entry + double (1 / 10))) \<and>
         newRate (successRate entry) False = max 0 (double (successRate entry - double (2 / 10)))"
proof (intro conjI impI)
  assume "double (3 / 10) \<le> newRate (successRate entry) success"
  then show "map_of (updateSuccessRate cache k success) k =
      Some (entry\<lparr>successRate := newRate (successRate entry) success\<rparr>)"
    by (simp add: updateSuccessRate_kept [OF assms] update_conv')
next
  assume low: "newRate (successRate entry) success < double (3 / 10)"
  then show gone: "map_of (updateSuccessRate cache k success) k = None"
    by (simp add: updateSuccessRate_dropped [OF assms] delete_conv')
  assume q: "generateCacheKey platform config i context = k \<and>
      (strategy config \<noteq> CONTEXT_AWARE \<or> context = None \<or>
       list_all (\<lambda>(key, e). key = k \<or> entry_intent e \<noteq> intent i) cache)"
  have "list_all (\<lambda>(key, e). key = k \<or> entry_intent e \<noteq> intent i) cache \<Longrightarrow>
      list_all (\<lambda>(key, e). entry_intent e \<noteq> intent i) (AList.delete k cache)"
    by (auto simp: AList.delete_eq list_all_iff)
  with q low have "strategy config \<noteq> CONTEXT_AWARE \<or> context = None \<or>
      list_all (\<lambda>(key, e). entry_intent e \<noteq> intent i) (updateSuccessRate cache k success)"
    by (auto simp: updateSuccessRate_dropped [OF assms])
  with gone q have "\<exists>reason. query platform config now (updateSuccessRate cache k success) i context =
      Inr (Miss reason, updateSuccessRate cache k success)"
    by (intro query_absent) auto
  then show "is_miss (query platform config now (updateSuccessRate cache k success) i context)"
    by (auto simp: is_miss_def)
next
  show "newRate (successRate entry) True = min 1 (double (successRate entry + double (1 / 10)))"
    by (simp add: newRate_def)
  show "newRate (successRate entry) False = max 0 (double (successRate entry - double (2 / 10)))"
    by (simp add: newRate_def)
qed

text \<open>
  Witness for C6. In \<open>cache_A\<close> the entry has rate 1 and a failure leaves it at the double
  0.8. In \<open>cache_A_low\<close> three failures have taken it to 0.4000000000000001; a fourth
  deletes it, and the query under \<open>snapshot_A\<close> reports a miss. After a failure, a
  success and two failures the rate is 0.49999999999999994, and one more failure takes it
  to 0.29999999999999993, below 0.3: the entry is deleted (\<open>cache_A_fsff\<close>).
\<close>

theorem updateSuccessRate_feedback_witness:
  "map_of cache_A key_A = Some entry_A \<and>
   double (3 / 10) \<le> newRate (successRate entry_A) False \<and>
   map_of (updateSuccessRate cache_A key_A False) key_A =
     Some (entry_A\<lparr>successRate := 3602879701896397 / 4503599627370496\<rparr>) \<and>
   map_of cache_A_low key_A = Some (entry_A\<lparr>successRate := 7205759403792795 / 18014398509481984\<rparr>) \<and>
   newRate (7205759403792795 / 18014398509481984) False < double (3 / 10) \<and>
   generateCacheKey sample_platform default_config sleep_intent (Some snapshot_A) = key_A \<and>
   list_all (\<lambda>(key, e). key = key_A \<or> entry_intent e \<noteq> intent sleep_intent) cache_A_low \<and>
   map_of (updateSuccessRate cache_A_low key_A False) key_A = None \<and>
   is_miss (query sample_platform default_config 1000 (updateSuccessRate cache_A_low key_A False)
     sleep_intent (Some snapshot_A)) \<and>
   map_of cache_A_fsff key_A = Some (entry_A\<lparr>successRate := 9007199254740991 / 18014398509481984\<rparr>) \<and>
   newRate (9007199254740991 / 18014398509481984) False = 5404319552844594 / 18014398509481984 \<and>
   map_of (updateSuccessRate cache_A_fsff key_A False) key_A = None"
proof -
  have a1: "map_of cache_A key_A = Some entry_A" by code_simp
  have a2: "double (3 / 10) \<le> newRate (successRate entry_A) False" by code_simp
  have a3: "newRate (successRate entry_A) False = 3602879701896397 / 4503599627370496" by code_simp
  have b1: "map_of cache_A_low key_A =
      Some (entry_A\<lparr>successRate := 7205759403792795 / 18014398509481984\<rparr>)"
    by code_simp
  have b2: "newRate (7205759403792795 / 18014398509481984) False < double (3 / 10)" by code_simp
  have b3: "generateCacheKey sample_platform default_config sleep_intent (Some snapshot_A) = key_A"
    by code_simp
  have b4: "list_all (\<lambda>(key, e). key = key_A \<or> entry_intent e \<noteq> intent sleep_intent) cache_A_low"
    by code_simp
  have c1: "map_of cache_A_fsff key_A =
      Some (entry_A\<lparr>successRate := 9007199254740991 / 18014398509481984\<rparr>)"
    by code_simp
  have c2: "newRate (9007199254740991 / 18014398509481984) False =
      5404319552844594 / 18014398509481984"
    by code_simp
  have c3: "5404319552844594 / 18014398509481984 < double (3 / 10)" by code_simp
  from updateSuccessRate_feedback [OF a1, of False] a2 a3
  have a: "map_of (updateSuccessRate cache_A key_A False) key_A =
      Some (entry_A\<lparr>successRate := 3602879701896397 / 4503599627370496\<rparr>)"
    by simp
  from updateSuccessRate_feedback [OF b1, of False sample_platform default_config sleep_intent
      "Some snapshot_A" 1000] b2 b3 b4
  have b: "map_of (updateSuccessRate cache_A_low key_A False) key_A = None \<and>
      is_miss (query sample_platform default_config 1000 (updateSuccessRate cache_A_low key_A False)
        sleep_intent (Some snapshot_A))"
    by simp
  from updateSuccessRate_feedback [OF c1, of False] c2 c3
  have c: "map_of (updateSuccessRate cache_A_fsff key_A False) key_A = None"
    by simp
  from a1 a2 a b1 b2 b3 b4 b c1 c2 c show ?thesis by blast
qed

text \<open>
  C7, as stated, fails in its last part. With capacity 0 a single store leaves one entry.
  With capacity 1 and a clock that steps back by one millisecond between two stores, the
  only entry scores 1/0, which is not below the initial minimum, so nothing is evicted
  and the second store leaves two entries.
\<close>

theorem run_invariant_counterexample:
  "length (run sample_platform (default_config\<lparr>maxSize := 0\<rparr>)
      [(0, Store sleep_intent fallback_sleep None)]) = 1 \<and>
   \<not> cache_invariant (default_config\<lparr>maxSize := 0\<rparr>)
      (run sample_platform (default_config\<lparr>maxSize := 0\<rparr>)
         [(0, Store sleep_intent fallback_sleep None)]) \<and>
   length (run sample_platform (default_config\<lparr>maxSize := 1\<rparr>)
      [(1, Store sleep_intent fallback_sleep None), (0, Store bath_intent fallback_sleep None)]) = 2 \<and>
   \<not> cache_invariant (default_config\<lparr>maxSize := 1\<rparr>)
      (run sample_platform (default_config\<lparr>maxSize := 1\<rparr>)
         [(1, Store sleep_intent fallback_sleep None), (0, Store bath_intent fallback_sleep None)])"
  by code_simp

text \<open>
  C7, amended. When the configured capacity is at least 1 and the clock does not run
  backwards from one operation to the next, then after every sequence of operations
  (query, store, updateSuccessRate, delete, clear) from the empty cache every stored
  entry's success rate lies in [0,1], every stored plan is cacheable, the keys are
  pairwise distinct, and the number of entries does not exceed the capacity.
\<close>

theorem run_invariant:
  assumes "1 \<le> maxSize config" and "sorted (map fst ops)"
  shows "cache_invariant config (run platform config ops)"
proof (cases ops)
  case Nil
  with assms show ?thesis by (simp add: run_def cache_invariant_def)
next
  case (Cons x xs)
  have "cache_inv config (fst x) []" using assms(1) by (simp add: cache_inv_def cache_invariant_def)
  moreover have "\<forall>y\<in>set ops. fst x \<le> fst y" using assms(2) Cons by auto
  ultimately show ?thesis
    unfolding run_def using assms by (intro inv_foldl [of config "fst x"]) auto
qed

text \<open>
  Witness for C7: nine operations on a cache of capacity two, among them a store that
  evicts and a query that throws.
\<close>

theorem run_invariant_witness:
  "1 \<le> maxSize small_config \<and> sorted (map fst sample_ops) \<and>
   cache_invariant small_config (run sample_platform small_config sample_ops)"
proof -
  have h1: "1 \<le> maxSize small_config" by (simp add: small_config_def)
  have h2: "sorted (map fst sample_ops)" by (simp add: sample_ops_def)
  from run_invariant [OF h1 h2, of sample_platform] h1 h2 show ?thesis by blast
qed

text \<open>
  C8. The claim: a candidate found by exact key or by fuzzy match whose age exceeds the
  time-to-live is deleted, and the query reports a miss. On the fuzzy path the code
  deletes the key it derived from the query, which is absent, instead of the candidate's
  key. The plan is stored under \<open>snapshot_D\<close> at time 0 (its digest is a JSON number, so
  \<open>JSON.parse\<close> returns); the query comes under \<open>snapshot_E\<close> one millisecond after
  the hour of the time-to-live. It reports the miss for expiry, and the expired entry is
  still in the map.
\<close>

theorem query_expired_fuzzy_candidate_kept:
  "rates cache_D = [(key_D, 1)] \<and>
   generateCacheKey sample_platform default_config sleep_intent (Some snapshot_E) \<noteq> key_D \<and>
   observe (query sample_platform default_config 3600001 cache_D sleep_intent (Some snapshot_E)) =
     Inr (Miss Expired, [(key_D, 1)])"
  by code_simp

end
